theory Spec2Isabelle
  imports Complex_Main "HOL-Library.Word" "HOL-Library.Sublist"
begin

section \<open>JavaScript strings\<close>

text \<open>
  A JavaScript string is a sequence of UTF-16 code units; \<open>length\<close>, \<open>slice\<close>, \<open>trim\<close>,
  \<open>replace\<close> and \<open>includes\<close> all count and compare code units. String literals of the
  source are written \<open>js ''...''\<close>.
\<close>

type_synonym code_unit = "16 word"
type_synonym jsstring = "code_unit list"

definition js :: "string \<Rightarrow> jsstring" where
  "js s = map (\<lambda>c. of_char c) s"

text \<open>
  \<open>String.prototype.slice(start, end)\<close> on integer arguments: a negative index counts
  from the end, both indices are clamped to the string, and an empty span gives the
  empty string.
\<close>

definition slice :: "jsstring \<Rightarrow> int \<Rightarrow> int \<Rightarrow> jsstring" where
  "slice s start end' =
     (let len = int (length s);
          lo = (if start < 0 then max (len + start) 0 else min start len);
          hi = (if end' < 0 then max (len + end') 0 else min end' len);
          span = max (hi - lo) 0
      in take (nat span) (drop (nat lo) s))"

text \<open>
  \<open>String.prototype.trim()\<close> removes WhiteSpace and LineTerminator code units from both
  ends: TAB, VT, FF, SP, NBSP, ZWNBSP, the space separators of Unicode, LF, CR, LS, PS.
\<close>

definition is_js_whitespace :: "code_unit \<Rightarrow> bool" where
  "is_js_whitespace c \<longleftrightarrow>
     c = 0x0009 \<or> c = 0x000A \<or> c = 0x000B \<or> c = 0x000C \<or> c = 0x000D \<or> c = 0x0020 \<or>
     c = 0x00A0 \<or> c = 0x1680 \<or> (0x2000 \<le> c \<and> c \<le> 0x200A) \<or> c = 0x2028 \<or>
     c = 0x2029 \<or> c = 0x202F \<or> c = 0x205F \<or> c = 0x3000 \<or> c = 0xFEFF"

definition trimStart :: "jsstring \<Rightarrow> jsstring" where
  "trimStart s = dropWhile is_js_whitespace s"

definition trimEnd :: "jsstring \<Rightarrow> jsstring" where
  "trimEnd s = rev (dropWhile is_js_whitespace (rev s))"

definition trim :: "jsstring \<Rightarrow> jsstring" where
  "trim s = trimEnd (trimStart s)"

text \<open>\<open>String.prototype.includes(sub)\<close>: does \<open>sub\<close> occur at some offset of \<open>s\<close>.\<close>

fun js_includes :: "jsstring \<Rightarrow> jsstring \<Rightarrow> bool" where
  "js_includes [] sub = (sub = [])"
| "js_includes (c # cs) sub = (prefix sub (c # cs) \<or> js_includes cs sub)"

text \<open>
  \<open>replace(/```json\n|\n```/g, '')\<close>: the scan goes from left to right; at each offset the
  alternatives are tried in order; a match is deleted and the scan resumes after it,
  so matches do not overlap and the replacement text is not scanned again.
\<close>

definition open_fence :: jsstring where
  "open_fence = js ''```json'' @ [0x000A]"

definition close_fence :: jsstring where
  "close_fence = 0x000A # js ''```''"

fun strip_fences :: "jsstring \<Rightarrow> jsstring" where
  "strip_fences [] = []"
| "strip_fences (c # cs) =
     (if prefix open_fence (c # cs) then strip_fences (drop 7 cs)
      else if prefix close_fence (c # cs) then strip_fences (drop 3 cs)
      else c # strip_fences cs)"

section \<open>JavaScript values and \<open>JSON.parse\<close>\<close>

text \<open>
  The values that \<open>JSON.parse\<close> builds, and \<open>undefined\<close>. A number is kept as the exact
  value of its literal; JavaScript rounds it to the nearest double, and to \<open>Infinity\<close>
  beyond the range. An object is the list of its properties in the order of the text,
  with distinct names; JavaScript lists integer-like names first. Both are finer than
  the values of JavaScript: equal values here are equal values there.
\<close>

datatype jsval =
    JUndefined
  | JNull
  | JBool bool
  | JNum rat
  | JStr jsstring
  | JArr "jsval list"
  | JObj "(jsstring \<times> jsval) list"

text \<open>
  \<open>ToBoolean\<close>, as used by \<open>!url\<close>. The double nearest to a literal is \<open>0\<close> exactly when the
  literal's magnitude is at most half of the smallest subnormal, \<open>2 ^ -1075\<close>; \<open>NaN\<close> is
  not a value of \<open>JSON.parse\<close>.
\<close>

fun truthy :: "jsval \<Rightarrow> bool" where
  "truthy JUndefined = False"
| "truthy JNull = False"
| "truthy (JBool b) = b"
| "truthy (JNum r) = (\<bar>r\<bar> * 2 ^ 1075 > 1)"
| "truthy (JStr s) = (s \<noteq> [])"
| "truthy (JArr xs) = True"
| "truthy (JObj ps) = True"

text \<open>
  Defining a property: a name that is already there keeps its place and takes the new
  value, a new name goes to the end.
\<close>

fun set_property :: "(jsstring \<times> jsval) list \<Rightarrow> jsstring \<Rightarrow> jsval \<Rightarrow> (jsstring \<times> jsval) list" where
  "set_property [] k v = [(k, v)]"
| "set_property ((k', v') # ps) k v =
     (if k' = k then (k, v) # ps else (k', v') # set_property ps k v)"

subsection \<open>Tokens\<close>

text \<open>
  The lexical grammar of JSON (ECMA-404), read one code unit at a time. White space is
  TAB, LF, CR and SP only. A string literal takes any code unit from \<open>0x20\<close> on except
  the quote and the backslash, and the escapes
  \<open>\" \\ \/ \b \f \n \r \t \uXXXX\<close>. A number is
  \<open>-? (0 | [1-9][0-9]*) (. [0-9]+)? ([eE] [+-]? [0-9]+)?\<close>.
\<close>

datatype token =
    TLBrace | TRBrace | TLBrack | TRBrack | TColon | TComma
  | TString jsstring
  | TScalar jsval

datatype num_state = NMinus | NZero | NInt | NDot | NFrac | NExp | NExpSign | NExpDigits

record number_acc =
  negative :: bool
  mantissa :: nat
  frac_len :: nat
  exp_negative :: bool
  exponent :: nat

datatype lex_state =
    LFail
  | LOutside "token list"
  | LLiteral "token list" jsstring jsval
  | LString "token list" jsstring
  | LEscape "token list" jsstring
  | LHex "token list" jsstring nat code_unit
  | LNumber "token list" num_state number_acc

definition is_json_whitespace :: "code_unit \<Rightarrow> bool" where
  "is_json_whitespace c \<longleftrightarrow> c = 0x0009 \<or> c = 0x000A \<or> c = 0x000D \<or> c = 0x0020"

definition is_digit :: "code_unit \<Rightarrow> bool" where
  "is_digit c \<longleftrightarrow> 0x0030 \<le> c \<and> c \<le> 0x0039"

definition digit_value :: "code_unit \<Rightarrow> nat" where
  "digit_value c = unat (c - 0x0030)"

definition hex_value :: "code_unit \<Rightarrow> code_unit option" where
  "hex_value c =
     (if 0x0030 \<le> c \<and> c \<le> 0x0039 then Some (c - 0x0030)
      else if 0x0041 \<le> c \<and> c \<le> 0x0046 then Some (c - 0x0041 + 10)
      else if 0x0061 \<le> c \<and> c \<le> 0x0066 then Some (c - 0x0061 + 10)
      else None)"

definition new_number :: "bool \<Rightarrow> nat \<Rightarrow> number_acc" where
  "new_number neg d =
     \<lparr>negative = neg, mantissa = d, frac_len = 0, exp_negative = False, exponent = 0\<rparr>"

definition num_accepting :: "num_state \<Rightarrow> bool" where
  "num_accepting ns \<longleftrightarrow> ns = NZero \<or> ns = NInt \<or> ns = NFrac \<or> ns = NExpDigits"

definition num_value :: "number_acc \<Rightarrow> rat" where
  "num_value a =
     (let e = (if exp_negative a then - int (exponent a) else int (exponent a)) - int (frac_len a);
          m = (if e \<ge> 0 then of_nat (mantissa a) * 10 ^ nat e
               else of_nat (mantissa a) / 10 ^ nat (- e))
      in if negative a then - m else m)"

text \<open>One more code unit of a number, or \<open>None\<close> when it cannot belong to the number.\<close>

definition num_step :: "num_state \<Rightarrow> number_acc \<Rightarrow> code_unit \<Rightarrow> (num_state \<times> number_acc) option" where
  "num_step ns a c =
     (let is_e = (c = 0x0065 \<or> c = 0x0045); d = digit_value c in
      case ns of
        NMinus \<Rightarrow>
          if c = 0x0030 then Some (NZero, a)
          else if is_digit c then Some (NInt, a\<lparr>mantissa := d\<rparr>)
          else None
      | NZero \<Rightarrow>
          if c = 0x002E then Some (NDot, a) else if is_e then Some (NExp, a) else None
      | NInt \<Rightarrow>
          if is_digit c then Some (NInt, a\<lparr>mantissa := mantissa a * 10 + d\<rparr>)
          else if c = 0x002E then Some (NDot, a)
          else if is_e then Some (NExp, a)
          else None
      | NDot \<Rightarrow>
          if is_digit c
          then Some (NFrac, a\<lparr>mantissa := mantissa a * 10 + d, frac_len := frac_len a + 1\<rparr>)
          else None
      | NFrac \<Rightarrow>
          if is_digit c
          then Some (NFrac, a\<lparr>mantissa := mantissa a * 10 + d, frac_len := frac_len a + 1\<rparr>)
          else if is_e then Some (NExp, a)
          else None
      | NExp \<Rightarrow>
          if c = 0x002B then Some (NExpSign, a)
          else if c = 0x002D then Some (NExpSign, a\<lparr>exp_negative := True\<rparr>)
          else if is_digit c then Some (NExpDigits, a\<lparr>exponent := d\<rparr>)
          else None
      | NExpSign \<Rightarrow>
          if is_digit c then Some (NExpDigits, a\<lparr>exponent := d\<rparr>) else None
      | NExpDigits \<Rightarrow>
          if is_digit c then Some (NExpDigits, a\<lparr>exponent := exponent a * 10 + d\<rparr>)
          else None)"

text \<open>A code unit met between tokens.\<close>

definition lex_outside :: "token list \<Rightarrow> code_unit \<Rightarrow> lex_state" where
  "lex_outside toks c =
     (if is_json_whitespace c then LOutside toks
      else if c = 0x007B then LOutside (TLBrace # toks)
      else if c = 0x007D then LOutside (TRBrace # toks)
      else if c = 0x005B then LOutside (TLBrack # toks)
      else if c = 0x005D then LOutside (TRBrack # toks)
      else if c = 0x003A then LOutside (TColon # toks)
      else if c = 0x002C then LOutside (TComma # toks)
      else if c = 0x0022 then LString toks []
      else if c = 0x002D then LNumber toks NMinus (new_number True 0)
      else if c = 0x0030 then LNumber toks NZero (new_number False 0)
      else if is_digit c then LNumber toks NInt (new_number False (digit_value c))
      else if c = 0x0074 then LLiteral toks (js ''rue'') (JBool True)
      else if c = 0x0066 then LLiteral toks (js ''alse'') (JBool False)
      else if c = 0x006E then LLiteral toks (js ''ull'') JNull
      else LFail)"

fun lex_step :: "lex_state \<Rightarrow> code_unit \<Rightarrow> lex_state" where
  "lex_step LFail c = LFail"
| "lex_step (LOutside toks) c = lex_outside toks c"
| "lex_step (LLiteral toks [] v) c = LFail"
| "lex_step (LLiteral toks (r # rs) v) c =
     (if c \<noteq> r then LFail
      else if rs = [] then LOutside (TScalar v # toks)
      else LLiteral toks rs v)"
| "lex_step (LString toks acc) c =
     (if c = 0x0022 then LOutside (TString (rev acc) # toks)
      else if c = 0x005C then LEscape toks acc
      else if c < 0x0020 then LFail
      else LString toks (c # acc))"
| "lex_step (LEscape toks acc) c =
     (if c = 0x0022 \<or> c = 0x005C \<or> c = 0x002F then LString toks (c # acc)
      else if c = 0x0062 then LString toks (0x0008 # acc)
      else if c = 0x0066 then LString toks (0x000C # acc)
      else if c = 0x006E then LString toks (0x000A # acc)
      else if c = 0x0072 then LString toks (0x000D # acc)
      else if c = 0x0074 then LString toks (0x0009 # acc)
      else if c = 0x0075 then LHex toks acc 0 0
      else LFail)"
| "lex_step (LHex toks acc n u) c =
     (case hex_value c of
        None \<Rightarrow> LFail
      | Some h \<Rightarrow>
          if n = 3 then LString toks ((u * 16 + h) # acc)
          else LHex toks acc (n + 1) (u * 16 + h))"
| "lex_step (LNumber toks ns a) c =
     (case num_step ns a c of
        Some (ns', a') \<Rightarrow> LNumber toks ns' a'
      | None \<Rightarrow>
          if num_accepting ns then lex_outside (TScalar (JNum (num_value a)) # toks) c
          else LFail)"

definition lex_finish :: "lex_state \<Rightarrow> token list option" where
  "lex_finish st =
     (case st of
        LOutside toks \<Rightarrow> Some (rev toks)
      | LNumber toks ns a \<Rightarrow>
          if num_accepting ns then Some (rev (TScalar (JNum (num_value a)) # toks)) else None
      | _ \<Rightarrow> None)"

definition lex :: "jsstring \<Rightarrow> token list option" where
  "lex text = lex_finish (foldl lex_step (LOutside []) text)"

subsection \<open>Values\<close>

text \<open>
  The syntactic grammar, read one token at a time with a stack of the arrays and objects
  that are still open. An array frame holds its elements, latest first; an object frame
  holds its properties, and the name that awaits its value.
\<close>

datatype frame =
    FArray "jsval list"
  | FObject "(jsstring \<times> jsval) list"
  | FProperty "(jsstring \<times> jsval) list" jsstring

datatype parse_mode =
    PValue | PValueOrEnd | PKeyOrEnd | PKey | PColon | PAfterValue | PDone jsval | PFail

type_synonym parse_state = "parse_mode \<times> frame list"

fun put_value :: "jsval \<Rightarrow> frame list \<Rightarrow> parse_state" where
  "put_value v [] = (PDone v, [])"
| "put_value v (FArray es # st) = (PAfterValue, FArray (v # es) # st)"
| "put_value v (FProperty ps k # st) = (PAfterValue, FObject (set_property ps k v) # st)"
| "put_value v (FObject ps # st) = (PFail, [])"

fun parse_value :: "bool \<Rightarrow> frame list \<Rightarrow> token \<Rightarrow> parse_state" where
  "parse_value e st (TString s) = put_value (JStr s) st"
| "parse_value e st (TScalar v) = put_value v st"
| "parse_value e st TLBrack = (PValueOrEnd, FArray [] # st)"
| "parse_value e st TLBrace = (PKeyOrEnd, FObject [] # st)"
| "parse_value True (FArray es # st) TRBrack = put_value (JArr (rev es)) st"
| "parse_value e st tok = (PFail, [])"

fun parse_key :: "bool \<Rightarrow> frame list \<Rightarrow> token \<Rightarrow> parse_state" where
  "parse_key e (FObject ps # st) (TString k) = (PColon, FProperty ps k # st)"
| "parse_key True (FObject ps # st) TRBrace = put_value (JObj ps) st"
| "parse_key e st tok = (PFail, [])"

fun parse_after_value :: "frame list \<Rightarrow> token \<Rightarrow> parse_state" where
  "parse_after_value (FArray es # st) TComma = (PValue, FArray es # st)"
| "parse_after_value (FArray es # st) TRBrack = put_value (JArr (rev es)) st"
| "parse_after_value (FObject ps # st) TComma = (PKey, FObject ps # st)"
| "parse_after_value (FObject ps # st) TRBrace = put_value (JObj ps) st"
| "parse_after_value st tok = (PFail, [])"

fun parse_step :: "parse_state \<Rightarrow> token \<Rightarrow> parse_state" where
  "parse_step (PValue, st) tok = parse_value False st tok"
| "parse_step (PValueOrEnd, st) tok = parse_value True st tok"
| "parse_step (PKeyOrEnd, st) tok = parse_key True st tok"
| "parse_step (PKey, st) tok = parse_key False st tok"
| "parse_step (PColon, st) tok = (if tok = TColon then (PValue, st) else (PFail, []))"
| "parse_step (PAfterValue, st) tok = parse_after_value st tok"
| "parse_step (PDone v, st) tok = (PFail, [])"
| "parse_step (PFail, st) tok = (PFail, [])"

definition parse_tokens :: "token list \<Rightarrow> jsval option" where
  "parse_tokens toks =
     (case foldl parse_step (PValue, []) toks of
        (PDone v, st) \<Rightarrow> Some v
      | _ \<Rightarrow> None)"

text \<open>\<open>JSON.parse(text)\<close>: the value, or \<open>None\<close> where it throws a \<open>SyntaxError\<close>.\<close>

definition JSON_parse :: "jsstring \<Rightarrow> jsval option" where
  "JSON_parse text = (case lex text of None \<Rightarrow> None | Some toks \<Rightarrow> parse_tokens toks)"

section \<open>The prompt\<close>

text \<open>
  The template literal of \<open>generateSummary\<close>: a fixed instruction followed by
  \<open>text.slice(0, 15000)\<close>. The parameter \<open>title\<close> of \<open>generateSummary\<close> does not
  occur in it.
\<close>

definition prompt_template :: jsstring where
  "prompt_template = js (''Act as an expert UPSC analyst. Summarize the text into Gist '' @
     ''(2 sentences, positive tone), 5 Key Points (HTML bullet list), and Relevance '' @
     ''(who needs this document). Respond ONLY in structured JSON format. Document Text: '')"

definition prompt :: "jsstring \<Rightarrow> jsstring" where
  "prompt text = prompt_template @ slice text 0 15000"

section \<open>The collaborators\<close>

text \<open>
  \<open>axios.get\<close>, \<open>pdf-parse\<close> and the generative model are outside the program. Each is a
  function of its argument and of the state of the world \<open>'w\<close> (the network, the remote
  services), and gives back either the error it rejects with or its result, and the new
  world. An error is an \<open>Error\<close> object, of which the program reads only \<open>message\<close>.

  The text of the errors that the engine itself throws is the engine's. Every message
  that V8, the engine of Node.js, gives to a \<open>SyntaxError\<close> of \<open>JSON.parse\<close> contains the
  word \<open>JSON\<close> (\<open>Unexpected token o in JSON at position 1\<close>,
  \<open>Unexpected end of JSON input\<close>, \<open>... is not valid JSON\<close>); what stands before and
  after the word differs between versions and is a parameter, and so is the message of
  the \<open>TypeError\<close> for \<open>undefined.trim()\<close>.
\<close>

type_synonym byte = "8 word"

datatype js_error = JsError (message: jsstring)

record gen_request =
  req_model :: jsstring
  req_role :: jsstring
  req_text :: jsstring
  req_responseMimeType :: jsstring

record 'w env =
  axios_get :: "jsval \<Rightarrow> 'w \<Rightarrow> (js_error + byte list) \<times> 'w"
  pdfParser :: "byte list \<Rightarrow> 'w \<Rightarrow> (js_error + jsstring) \<times> 'w"
  generateContent :: "gen_request \<Rightarrow> 'w \<Rightarrow> (js_error + jsstring option) \<times> 'w"
  syntax_error_wording :: "jsstring \<Rightarrow> jsstring \<times> jsstring"
  undefined_trim_message :: jsstring

text \<open>The \<open>SyntaxError\<close> that \<open>JSON.parse\<close> throws on a text.\<close>

definition syntax_error :: "'w env \<Rightarrow> jsstring \<Rightarrow> js_error" where
  "syntax_error env t =
     (case syntax_error_wording env t of
        (before, after) \<Rightarrow> JsError (before @ js ''JSON'' @ after))"

text \<open>What a run does to the outside, in order: the calls it makes and the lines it logs.\<close>

datatype log_arg = LogString jsstring | LogError js_error

datatype event =
    AxiosGet jsval
  | PdfParse "byte list"
  | GenerateContent gen_request
  | ConsoleError jsstring log_arg

section \<open>\<open>server.js\<close>\<close>

text \<open>
  \<open>extractTextFromPdf(url)\<close>: the download, then the extraction of \<open>data.text\<close>; a
  rejected \<open>await\<close> leaves the function at once.
\<close>

definition extractTextFromPdf ::
  "'w env \<Rightarrow> jsval \<Rightarrow> 'w \<Rightarrow> (js_error + jsstring) \<times> 'w \<times> event list" where
  "extractTextFromPdf env url w =
     (case axios_get env url w of
        (Inl e, w1) \<Rightarrow> (Inl e, w1, [AxiosGet url])
      | (Inr response_data, w1) \<Rightarrow>
          (case pdfParser env response_data w1 of
             (Inl e, w2) \<Rightarrow> (Inl e, w2, [AxiosGet url, PdfParse response_data])
           | (Inr data_text, w2) \<Rightarrow> (Inr data_text, w2, [AxiosGet url, PdfParse response_data])))"

text \<open>The argument of \<open>ai.models.generateContent\<close>.\<close>

definition generation_request :: "jsstring \<Rightarrow> gen_request" where
  "generation_request p =
     \<lparr>req_model = js ''gemini-2.5-flash'', req_role = js ''user'', req_text = p,
      req_responseMimeType = js ''application/json''\<rparr>"

text \<open>\<open>response.text.trim().replace(/```json\n|\n```/g, '').trim()\<close>\<close>

definition jsonString :: "jsstring \<Rightarrow> jsstring" where
  "jsonString response_text = trim (strip_fences (trim response_text))"

text \<open>
  \<open>generateSummary(text, title)\<close>. \<open>response.text\<close> is \<open>undefined\<close> when the model returned
  no text, and \<open>.trim()\<close> on it throws a \<open>TypeError\<close>; \<open>JSON.parse\<close> throws a
  \<open>SyntaxError\<close>.
\<close>

definition generateSummary ::
  "'w env \<Rightarrow> jsstring \<Rightarrow> jsval \<Rightarrow> 'w \<Rightarrow> (js_error + jsval) \<times> 'w \<times> event list" where
  "generateSummary env text title w =
     (let request = generation_request (prompt text) in
      case generateContent env request w of
        (Inl e, w1) \<Rightarrow> (Inl e, w1, [GenerateContent request])
      | (Inr None, w1) \<Rightarrow>
          (Inl (JsError (undefined_trim_message env)), w1, [GenerateContent request])
      | (Inr (Some response_text), w1) \<Rightarrow>
          (case JSON_parse (jsonString response_text) of
             None \<Rightarrow>
               (Inl (syntax_error env (jsonString response_text)), w1,
                [GenerateContent request])
           | Some summary \<Rightarrow> (Inr summary, w1, [GenerateContent request])))"

text \<open>
  Reading a property of the request body for the destructuring \<open>{ url, title }\<close>: an own
  property of an object, and \<open>undefined\<close> where there is none (neither name is a
  property of a prototype).
\<close>

fun get_property :: "jsval \<Rightarrow> jsstring \<Rightarrow> jsval" where
  "get_property (JObj ps) k = (case map_of ps k of None \<Rightarrow> JUndefined | Some v \<Rightarrow> v)"
| "get_property v k = JUndefined"

text \<open>
  What the handler of \<open>POST /summarize\<close> ends with: the response it sent, or a rejection
  of the handler itself with no response sent by it (destructuring a body that is
  \<open>undefined\<close> or \<open>null\<close> throws before the \<open>try\<close>).
\<close>

datatype outcome = Responded nat jsval | Rejected

definition missing_fields_body :: jsval where
  "missing_fields_body =
     JObj [(js ''error'', JStr (js (''Missing '' @ [CHR 0x27] @ ''url'' @ [CHR 0x27] @ '' or '' @
       [CHR 0x27] @ ''title'' @ [CHR 0x27] @ '' in request body.'')))]"

definition details_of :: "js_error \<Rightarrow> jsstring" where
  "details_of e =
     (if js_includes (message e) (js ''JSON'') then js ''AI structure error or malformed response.''
      else js ''External PDF access failure.'')"

definition failure_body :: "js_error \<Rightarrow> jsval" where
  "failure_body e =
     JObj [(js ''error'', JStr (js ''Failed to process document or generate summary.'')),
           (js ''details'', JStr (details_of e))]"

text \<open>The \<open>catch\<close> block of \<open>server.js\<close>: it logs \<open>error.message\<close>.\<close>

definition catch_block :: "js_error \<Rightarrow> outcome \<times> event list" where
  "catch_block e =
     (Responded 500 (failure_body e),
      [ConsoleError (js ''Microservice Error Processing:'') (LogString (message e))])"

text \<open>
  The \<open>try\<close> block of the handler up to the value of \<open>summary\<close>: the two awaited calls
  in order, the first rejection leaving the block.
\<close>

definition try_block ::
  "'w env \<Rightarrow> jsval \<Rightarrow> jsval \<Rightarrow> 'w \<Rightarrow> (js_error + jsval) \<times> 'w \<times> event list" where
  "try_block env url title w =
     (case extractTextFromPdf env url w of
        (Inl e, w1, ev1) \<Rightarrow> (Inl e, w1, ev1)
      | (Inr documentText, w1, ev1) \<Rightarrow>
          (case generateSummary env documentText title w1 of
             (r, w2, ev2) \<Rightarrow> (r, w2, ev1 @ ev2)))"

definition handler :: "'w env \<Rightarrow> jsval \<Rightarrow> 'w \<Rightarrow> outcome \<times> 'w \<times> event list" where
  "handler env body w =
     (if body = JUndefined \<or> body = JNull then (Rejected, w, [])
      else
        let url = get_property body (js ''url''); title = get_property body (js ''title'') in
        if \<not> truthy url \<or> \<not> truthy title then (Responded 400 missing_fields_body, w, [])
        else
          (case try_block env url title w of
             (Inr summary, w', ev) \<Rightarrow> (Responded 200 summary, w', ev)
           | (Inl e, w', ev) \<Rightarrow> (fst (catch_block e), w', ev @ snd (catch_block e))))"

section \<open>\<open>server.cjs\<close>\<close>

text \<open>
  The same three functions as \<open>server.cjs\<close> has them. Its \<open>catch\<close> block logs the error
  object instead of its message.
\<close>

definition extractTextFromPdf_cjs ::
  "'w env \<Rightarrow> jsval \<Rightarrow> 'w \<Rightarrow> (js_error + jsstring) \<times> 'w \<times> event list" where
  "extractTextFromPdf_cjs env url w =
     (case axios_get env url w of
        (Inl e, w1) \<Rightarrow> (Inl e, w1, [AxiosGet url])
      | (Inr response_data, w1) \<Rightarrow>
          (case pdfParser env response_data w1 of
             (Inl e, w2) \<Rightarrow> (Inl e, w2, [AxiosGet url, PdfParse response_data])
           | (Inr data_text, w2) \<Rightarrow> (Inr data_text, w2, [AxiosGet url, PdfParse response_data])))"

definition generateSummary_cjs ::
  "'w env \<Rightarrow> jsstring \<Rightarrow> jsval \<Rightarrow> 'w \<Rightarrow> (js_error + jsval) \<times> 'w \<times> event list" where
  "generateSummary_cjs env text title w =
     (let request = generation_request (prompt text) in
      case generateContent env request w of
        (Inl e, w1) \<Rightarrow> (Inl e, w1, [GenerateContent request])
      | (Inr None, w1) \<Rightarrow>
          (Inl (JsError (undefined_trim_message env)), w1, [GenerateContent request])
      | (Inr (Some response_text), w1) \<Rightarrow>
          (case JSON_parse (jsonString response_text) of
             None \<Rightarrow>
               (Inl (syntax_error env (jsonString response_text)), w1,
                [GenerateContent request])
           | Some summary \<Rightarrow> (Inr summary, w1, [GenerateContent request])))"

definition catch_block_cjs :: "js_error \<Rightarrow> outcome \<times> event list" where
  "catch_block_cjs e =
     (Responded 500 (failure_body e),
      [ConsoleError (js ''Microservice Error Processing:'') (LogError e)])"

definition try_block_cjs ::
  "'w env \<Rightarrow> jsval \<Rightarrow> jsval \<Rightarrow> 'w \<Rightarrow> (js_error + jsval) \<times> 'w \<times> event list" where
  "try_block_cjs env url title w =
     (case extractTextFromPdf_cjs env url w of
        (Inl e, w1, ev1) \<Rightarrow> (Inl e, w1, ev1)
      | (Inr documentText, w1, ev1) \<Rightarrow>
          (case generateSummary_cjs env documentText title w1 of
             (r, w2, ev2) \<Rightarrow> (r, w2, ev1 @ ev2)))"

definition handler_cjs :: "'w env \<Rightarrow> jsval \<Rightarrow> 'w \<Rightarrow> outcome \<times> 'w \<times> event list" where
  "handler_cjs env body w =
     (if body = JUndefined \<or> body = JNull then (Rejected, w, [])
      else
        let url = get_property body (js ''url''); title = get_property body (js ''title'') in
        if \<not> truthy url \<or> \<not> truthy title then (Responded 400 missing_fields_body, w, [])
        else
          (case try_block_cjs env url title w of
             (Inr summary, w', ev) \<Rightarrow> (Responded 200 summary, w', ev)
           | (Inl e, w', ev) \<Rightarrow> (fst (catch_block_cjs e), w', ev @ snd (catch_block_cjs e))))"

section \<open>Notions used in the properties\<close>

text \<open>The requests that get past the guard of the handler.\<close>

definition passes_validation :: "jsval \<Rightarrow> bool" where
  "passes_validation body \<longleftrightarrow>
     body \<noteq> JUndefined \<and> body \<noteq> JNull \<and>
     truthy (get_property body (js ''url'')) \<and> truthy (get_property body (js ''title''))"

text \<open>The calls among the events of a run, without the log lines.\<close>

fun is_call :: "event \<Rightarrow> bool" where
  "is_call (ConsoleError label arg) = False"
| "is_call ev = True"

definition calls :: "event list \<Rightarrow> event list" where
  "calls evs = filter is_call evs"

text \<open>
  Collaborators whose answers do not depend on the state of the world, as stubs are;
  and collaborators that leave the world as it is.
\<close>

definition stubbed :: "'w env \<Rightarrow> bool" where
  "stubbed env \<longleftrightarrow>
     (\<forall>url w w'. fst (axios_get env url w) = fst (axios_get env url w')) \<and>
     (\<forall>d w w'. fst (pdfParser env d w) = fst (pdfParser env d w')) \<and>
     (\<forall>r w w'. fst (generateContent env r w) = fst (generateContent env r w'))"

definition world_preserving :: "'w env \<Rightarrow> bool" where
  "world_preserving env \<longleftrightarrow>
     (\<forall>url w. snd (axios_get env url w) = w) \<and>
     (\<forall>d w. snd (pdfParser env d w) = w) \<and>
     (\<forall>r w. snd (generateContent env r w) = w)"

text \<open>
  The offsets at which the regular expression matches, and the states the lexer can
  be in: the rest of a literal name is made of small letters.
\<close>

definition fence_at :: "jsstring \<Rightarrow> bool" where
  "fence_at xs \<longleftrightarrow> prefix open_fence xs \<or> prefix close_fence xs"

fun lex_wf :: "lex_state \<Rightarrow> bool" where
  "lex_wf (LLiteral toks rs v) = (\<forall>r \<in> set rs. 0x0061 \<le> r \<and> r \<le> 0x007A)"
| "lex_wf st = True"

section \<open>Test doubles\<close>

text \<open>
  A world that only counts the calls made to it, and collaborators that answer with
  fixed results whatever they are asked. The engine's messages are the ones V8 gives
  for the texts used below.
\<close>

definition stub_env ::
  "(js_error + byte list) \<Rightarrow> (js_error + jsstring) \<Rightarrow> (js_error + jsstring option) \<Rightarrow> nat env" where
  "stub_env fetched extracted generated =
     \<lparr>axios_get = (\<lambda>url w. (fetched, Suc w)),
      pdfParser = (\<lambda>data w. (extracted, Suc w)),
      generateContent = (\<lambda>request w. (generated, Suc w)),
      syntax_error_wording = (\<lambda>t. (js ''Unexpected token o in '', js '' at position 1'')),
      undefined_trim_message =
        js (''Cannot read properties of undefined (reading '' @ [CHR 0x27] @ ''trim'' @ [CHR 0x27] @ '')'')\<rparr>"

text \<open>The same answers from collaborators that leave the world alone.\<close>

definition still_env ::
  "(js_error + byte list) \<Rightarrow> (js_error + jsstring) \<Rightarrow> (js_error + jsstring option) \<Rightarrow> nat env" where
  "still_env fetched extracted generated =
     \<lparr>axios_get = (\<lambda>url w. (fetched, w)),
      pdfParser = (\<lambda>data w. (extracted, w)),
      generateContent = (\<lambda>request w. (generated, w)),
      syntax_error_wording = (\<lambda>t. (js ''Unexpected token o in '', js '' at position 1'')),
      undefined_trim_message =
        js (''Cannot read properties of undefined (reading '' @ [CHR 0x27] @ ''trim'' @ [CHR 0x27] @ '')'')\<rparr>"

definition pdf_bytes :: "byte list" where
  "pdf_bytes = [0x25, 0x50, 0x44, 0x46]"

definition fenced_example :: jsstring where
  "fenced_example =
     open_fence @
     js ''{\"gist\":\"a\",\"keyPoints\":\"<ul></ul>\",\"relevance\":\"b\"}'' @
     close_fence"

definition example_summary :: jsval where
  "example_summary =
     JObj [(js ''gist'', JStr (js ''a'')), (js ''keyPoints'', JStr (js ''<ul></ul>'')),
           (js ''relevance'', JStr (js ''b''))]"

definition example_body :: jsval where
  "example_body =
     JObj [(js ''url'', JStr (js ''https://example.org/notice.pdf'')),
           (js ''title'', JStr (js ''Notice''))]"

section \<open>Properties\<close>

lemma slice_0: "0 \<le> n \<Longrightarrow> slice s 0 n = take (nat n) s"
  by (simp add: slice_def Let_def min_def)

text \<open>
  C2. For every extracted text, the prompt is the fixed template followed by exactly
  the first \<open>min (length text) 15000\<close> code units of the text; what lies beyond offset
  15000 is dropped, so the prompt is never longer than the template plus 15000.
\<close>
theorem prompt_truncates:
  "prompt text = prompt_template @ take (min (length text) 15000) text \<and>
   length (prompt text) = length prompt_template + min (length text) 15000 \<and>
   length (prompt text) \<le> length prompt_template + 15000 \<and>
   prompt text = prompt (take 15000 text)"
proof -
  have s: "slice t 0 15000 = take 15000 t" for t
    using slice_0 [of 15000 t] by simp
  have t: "take (min (length text) 15000) text = take 15000 text"
    by (simp add: min_def)
  show ?thesis
    by (simp add: prompt_def s t)
qed

subsection \<open>The handler\<close>

lemma handler_valid:
  "passes_validation body \<Longrightarrow>
   handler env body w =
     (case try_block env (get_property body (js ''url'')) (get_property body (js ''title'')) w of
        (Inr summary, w', ev) \<Rightarrow> (Responded 200 summary, w', ev)
      | (Inl e, w', ev) \<Rightarrow>
          (Responded 500 (failure_body e), w',
           ev @ [ConsoleError (js ''Microservice Error Processing:'') (LogString (message e))]))"
  by (simp add: handler_def passes_validation_def Let_def catch_block_def
      split: prod.splits sum.splits)

lemma generateSummary_events:
  "snd (snd (generateSummary env text title w)) = [GenerateContent (generation_request (prompt text))]"
  by (simp add: generateSummary_def Let_def split: prod.splits sum.splits option.splits)

lemma try_block_fetch_fails:
  "axios_get env url w = (Inl e, w1) \<Longrightarrow> try_block env url title w = (Inl e, w1, [AxiosGet url])"
  by (simp add: try_block_def extractTextFromPdf_def)

lemma try_block_extract_fails:
  "axios_get env url w = (Inr d, w1) \<Longrightarrow> pdfParser env d w1 = (Inl e, w2) \<Longrightarrow>
   try_block env url title w = (Inl e, w2, [AxiosGet url, PdfParse d])"
  by (simp add: try_block_def extractTextFromPdf_def)

lemma try_block_generate:
  "axios_get env url w = (Inr d, w1) \<Longrightarrow> pdfParser env d w1 = (Inr t, w2) \<Longrightarrow>
   try_block env url title w =
     (fst (generateSummary env t title w2), fst (snd (generateSummary env t title w2)),
      [AxiosGet url, PdfParse d, GenerateContent (generation_request (prompt t))])"
  using generateSummary_events [of env t title w2]
  by (cases "generateSummary env t title w2") (simp add: try_block_def extractTextFromPdf_def)

lemma handler_caught:
  "passes_validation body \<Longrightarrow>
   try_block env (get_property body (js ''url'')) (get_property body (js ''title'')) w = (Inl e, w', ev) \<Longrightarrow>
   handler env body w =
     (Responded 500 (failure_body e), w',
      ev @ [ConsoleError (js ''Microservice Error Processing:'') (LogString (message e))])"
  by (simp add: handler_valid)

lemma handler_success:
  "passes_validation body \<Longrightarrow>
   try_block env (get_property body (js ''url'')) (get_property body (js ''title'')) w = (Inr s, w', ev) \<Longrightarrow>
   handler env body w = (Responded 200 s, w', ev)"
  by (simp add: handler_valid)

lemma not_json_unparsable: "JSON_parse (jsonString (js ''not json'')) = None"
  by (simp add: jsonString_def trim_def trimStart_def trimEnd_def js_def is_js_whitespace_def
      open_fence_def close_fence_def JSON_parse_def lex_def lex_outside_def is_json_whitespace_def
      is_digit_def lex_finish_def)

lemma not_json_jsonString: "jsonString (js ''not json'') = js ''not json''"
  by (simp add: jsonString_def trim_def trimStart_def trimEnd_def js_def is_js_whitespace_def
      open_fence_def close_fence_def)

lemma js_includes_infix: "js_includes (before @ sub @ after) sub"
proof (induction before)
  case Nil
  have p: "prefix sub (sub @ after)" by simp
  show ?case
  proof (cases "sub @ after")
    case Nil
    then show ?thesis by simp
  next
    case (Cons a rest)
    from p [unfolded Cons] show ?thesis by (simp add: Cons)
  qed
next
  case (Cons c cs)
  then show ?case by simp
qed

lemma syntax_error_mentions_JSON: "js_includes (message (syntax_error env t)) (js ''JSON'')"
  by (simp add: syntax_error_def js_includes_infix split: prod.splits)

text \<open>
  C3. When the \<open>try\<close> block of a validated request ends with an error, the response is
  500 with the fixed \<open>error\<close> text, and \<open>details\<close> is the structure message if the error's
  message contains \<open>JSON\<close> and the access message otherwise. In particular, whenever the
  text that the model returned does not parse after normalization, the details are the
  structure message; \<open>not json\<close> is such a text.
\<close>
theorem pipeline_failure_500:
  "(passes_validation body \<longrightarrow>
    try_block env (get_property body (js ''url'')) (get_property body (js ''title'')) w = (Inl e, w', ev) \<longrightarrow>
    fst (handler env body w) =
      Responded 500
        (JObj [(js ''error'', JStr (js ''Failed to process document or generate summary.'')),
               (js ''details'',
                JStr (if js_includes (message e) (js ''JSON'')
                      then js ''AI structure error or malformed response.''
                      else js ''External PDF access failure.''))])) \<and>
   (passes_validation body \<longrightarrow>
    extractTextFromPdf env (get_property body (js ''url'')) w = (Inr documentText, w1, ev1) \<longrightarrow>
    generateContent env (generation_request (prompt documentText)) w1 = (Inr (Some response_text), w2) \<longrightarrow>
    JSON_parse (jsonString response_text) = None \<longrightarrow>
    fst (handler env body w) =
      Responded 500
        (JObj [(js ''error'', JStr (js ''Failed to process document or generate summary.'')),
               (js ''details'', JStr (js ''AI structure error or malformed response.''))])) \<and>
   JSON_parse (jsonString (js ''not json'')) = None"
proof (intro conjI impI)
  assume "passes_validation body"
    and "try_block env (get_property body (js ''url'')) (get_property body (js ''title'')) w = (Inl e, w', ev)"
  then show "fst (handler env body w) =
      Responded 500
        (JObj [(js ''error'', JStr (js ''Failed to process document or generate summary.'')),
               (js ''details'',
                JStr (if js_includes (message e) (js ''JSON'')
                      then js ''AI structure error or malformed response.''
                      else js ''External PDF access failure.''))])"
    by (simp add: handler_caught failure_body_def details_of_def)
next
  assume v: "passes_validation body"
    and x: "extractTextFromPdf env (get_property body (js ''url'')) w = (Inr documentText, w1, ev1)"
    and g: "generateContent env (generation_request (prompt documentText)) w1 = (Inr (Some response_text), w2)"
    and n: "JSON_parse (jsonString response_text) = None"
  have "generateSummary env documentText (get_property body (js ''title'')) w1 =
          (Inl (syntax_error env (jsonString response_text)), w2,
           [GenerateContent (generation_request (prompt documentText))])"
    using g n by (simp add: generateSummary_def Let_def)
  with x have "try_block env (get_property body (js ''url'')) (get_property body (js ''title'')) w =
      (Inl (syntax_error env (jsonString response_text)), w2,
       ev1 @ [GenerateContent (generation_request (prompt documentText))])"
    by (simp add: try_block_def)
  with v show "fst (handler env body w) =
      Responded 500
        (JObj [(js ''error'', JStr (js ''Failed to process document or generate summary.'')),
               (js ''details'', JStr (js ''AI structure error or malformed response.''))])"
    by (simp add: handler_caught failure_body_def details_of_def syntax_error_mentions_JSON)
next
  show "JSON_parse (jsonString (js ''not json'')) = None"
    by (rule not_json_unparsable)
qed

lemma example_body_valid: "passes_validation example_body"
  by (simp add: passes_validation_def example_body_def js_def)

lemma example_body_url: "get_property example_body (js ''url'') = JStr (js ''https://example.org/notice.pdf'')"
  by (simp add: example_body_def js_def)

lemma invalid_pdf_message_no_JSON:
  "\<not> js_includes (js ''Invalid PDF structure'') (js ''JSON'')"
  by (simp add: js_def)

text \<open>
  The model answers \<open>not json\<close>: the structure message. The extraction fails on bytes
  that are no PDF: the access message.
\<close>
theorem pipeline_failure_500_witness:
  "fst (handler (stub_env (Inr pdf_bytes) (Inr (js ''text'')) (Inr (Some (js ''not json'')))) example_body 0) =
      Responded 500
        (JObj [(js ''error'', JStr (js ''Failed to process document or generate summary.'')),
               (js ''details'', JStr (js ''AI structure error or malformed response.''))]) \<and>
   fst (handler (stub_env (Inr [0x00, 0x01]) (Inl (JsError (js ''Invalid PDF structure''))) (Inr (Some fenced_example)))
          example_body 0) =
      Responded 500
        (JObj [(js ''error'', JStr (js ''Failed to process document or generate summary.'')),
               (js ''details'', JStr (js ''External PDF access failure.''))])"
proof -
  let ?url = "JStr (js ''https://example.org/notice.pdf'')"
  let ?a = "stub_env (Inr pdf_bytes) (Inr (js ''text'')) (Inr (Some (js ''not json'')))"
  let ?b = "stub_env (Inr [0x00, 0x01]) (Inl (JsError (js ''Invalid PDF structure''))) (Inr (Some fenced_example))"
  have 1: "extractTextFromPdf ?a (get_property example_body (js ''url'')) 0 =
      (Inr (js ''text''), 2, [AxiosGet ?url, PdfParse pdf_bytes])"
    by (simp add: example_body_url extractTextFromPdf_def stub_env_def)
  have 2: "generateContent ?a (generation_request (prompt (js ''text''))) 2 = (Inr (Some (js ''not json'')), 3)"
    by (simp add: stub_env_def)
  have 3: "try_block ?b (get_property example_body (js ''url'')) (get_property example_body (js ''title'')) 0 =
      (Inl (JsError (js ''Invalid PDF structure'')), 2, [AxiosGet ?url, PdfParse [0x00, 0x01]])"
    by (simp add: example_body_url try_block_def extractTextFromPdf_def stub_env_def)
  show ?thesis
    using pipeline_failure_500 [of example_body ?a 0 _ _ _ "js ''text''" 2
        "[AxiosGet ?url, PdfParse pdf_bytes]" "js ''not json''" 3]
      pipeline_failure_500 [of example_body ?b 0 "JsError (js ''Invalid PDF structure'')" 2
        "[AxiosGet ?url, PdfParse [0x00, 0x01]]"]
      example_body_valid 1 2 3 invalid_pdf_message_no_JSON
    by simp
qed

text \<open>
  The guard of the handler: a parsed body, object or array, that lacks \<open>url\<close> or \<open>title\<close>
  or has the empty string for one of them is answered with status 400 and the body
  \<open>{"error": "Missing 'url' or 'title' in request body."}\<close>; no call is made, nothing
  is logged, and the world is as it was.
\<close>

lemma guard_answers_400:
  assumes "body \<noteq> JUndefined" and "body \<noteq> JNull"
    and "get_property body (js ''url'') \<in> {JUndefined, JStr []} \<or>
         get_property body (js ''title'') \<in> {JUndefined, JStr []}"
  shows "handler env body w = (Responded 400 missing_fields_body, w, [])"
  using assms by (auto simp: handler_def Let_def)

lemma guard_answers_400_object:
  "handler (stub_env (Inr pdf_bytes) (Inr (js ''text'')) (Inr (Some fenced_example)))
     (JObj [(js ''title'', JStr (js ''Notice'')), (js ''url'', JStr [])]) 0 =
   (Responded 400 missing_fields_body, 0, [])"
  by (rule guard_answers_400) (simp_all add: js_def)

lemma guard_answers_400_array:
  "handler (stub_env (Inr pdf_bytes) (Inr (js ''text'')) (Inr (Some fenced_example))) (JArr []) 0 =
   (Responded 400 missing_fields_body, 0, [])"
  by (rule guard_answers_400) simp_all

lemma missing_fields_body_text:
  "missing_fields_body =
     JObj [(js ''error'',
            JStr (js ''Missing '' @ [0x0027] @ js ''url'' @ [0x0027] @ js '' or '' @ [0x0027] @
                  js ''title'' @ [0x0027] @ js '' in request body.''))]"
  by (simp add: missing_fields_body_def js_def)

text \<open>
  C1 asks for status 400 whenever \<open>url\<close> or \<open>title\<close> is absent. A request that carries no
  parsed body has neither, but \<open>const { url, title } = req.body\<close> stands before the guard
  and throws on \<open>undefined\<close>: the handler is left with no response sent, and not with
  status 400.
\<close>
theorem missing_body_not_400:
  "handler env JUndefined w = (Rejected, w, []) \<and>
   fst (handler env JUndefined w) \<noteq> Responded 400 missing_fields_body \<and>
   get_property JUndefined (js ''url'') = JUndefined \<and>
   get_property JUndefined (js ''title'') = JUndefined"
  by (simp add: handler_def)

text \<open>The request with no body, with collaborators that would have answered.\<close>
theorem missing_body_not_400_witness:
  "handler (stub_env (Inr pdf_bytes) (Inr (js ''text'')) (Inr (Some fenced_example))) JUndefined 0 =
     (Rejected, 0, [])"
  using missing_body_not_400 [of "stub_env (Inr pdf_bytes) (Inr (js ''text'')) (Inr (Some fenced_example))" 0]
  by simp

lemma tls_message_mentions_JSON:
  "js_includes (js ''Hostname/IP does not match certificate's altnames: Host: example.org. is not in the cert's altnames: DNS:JSON.example.net'') (js ''JSON'')"
  by (simp add: js_def)

text \<open>
  C4, as stated, fails: the handler tells failures apart by the text of the message
  only, and a failed download whose message contains \<open>JSON\<close> (here a certificate whose
  alternative name does) is answered with the structure message.
\<close>
theorem fetch_failure_misclassified:
  "fst (handler
         (stub_env (Inl (JsError (js ''Hostname/IP does not match certificate's altnames: Host: example.org. is not in the cert's altnames: DNS:JSON.example.net'')))
            (Inr (js ''text'')) (Inr (Some fenced_example)))
         example_body 0) =
     Responded 500
       (JObj [(js ''error'', JStr (js ''Failed to process document or generate summary.'')),
              (js ''details'', JStr (js ''AI structure error or malformed response.''))]) \<and>
   js ''AI structure error or malformed response.'' \<noteq> js ''External PDF access failure.''"
proof -
  let ?e = "JsError (js ''Hostname/IP does not match certificate's altnames: Host: example.org. is not in the cert's altnames: DNS:JSON.example.net'')"
  let ?env = "stub_env (Inl ?e) (Inr (js ''text'')) (Inr (Some fenced_example))"
  have "axios_get ?env (get_property example_body (js ''url'')) 0 = (Inl ?e, 1)"
    by (simp add: stub_env_def)
  then have "try_block ?env (get_property example_body (js ''url'')) (get_property example_body (js ''title'')) 0 =
      (Inl ?e, 1, [AxiosGet (get_property example_body (js ''url''))])"
    by (rule try_block_fetch_fails)
  then have "fst (handler ?env example_body 0) = Responded 500 (failure_body ?e)"
    using example_body_valid by (simp add: handler_caught)
  moreover have "js ''AI structure error or malformed response.'' \<noteq> js ''External PDF access failure.''"
    by (simp add: js_def)
  ultimately show ?thesis
    using tls_message_mentions_JSON by (simp add: failure_body_def details_of_def)
qed

text \<open>
  C4, amended. A failed download whose message does not contain \<open>JSON\<close> is answered with
  500 and the details \<open>External PDF access failure.\<close>, which is not the structure
  message.
\<close>
theorem fetch_failure_external:
  assumes "passes_validation body"
    and "axios_get env (get_property body (js ''url'')) w = (Inl e, w1)"
    and "\<not> js_includes (message e) (js ''JSON'')"
  shows "fst (handler env body w) =
     Responded 500
       (JObj [(js ''error'', JStr (js ''Failed to process document or generate summary.'')),
              (js ''details'', JStr (js ''External PDF access failure.''))]) \<and>
     js ''External PDF access failure.'' \<noteq> js ''AI structure error or malformed response.''"
proof -
  have "try_block env (get_property body (js ''url'')) (get_property body (js ''title'')) w =
      (Inl e, w1, [AxiosGet (get_property body (js ''url''))])"
    using assms(2) by (rule try_block_fetch_fails)
  then have "fst (handler env body w) = Responded 500 (failure_body e)"
    using assms(1) by (simp add: handler_caught)
  moreover have "js ''External PDF access failure.'' \<noteq> js ''AI structure error or malformed response.''"
    by (simp add: js_def)
  ultimately show ?thesis
    using assms(3) by (simp add: failure_body_def details_of_def)
qed

lemma refused_message_no_JSON:
  "\<not> js_includes (js ''connect ECONNREFUSED 127.0.0.1:443'') (js ''JSON'')"
  by (simp add: js_def)

text \<open>A refused connection.\<close>
theorem fetch_failure_external_witness:
  "fst (handler
         (stub_env (Inl (JsError (js ''connect ECONNREFUSED 127.0.0.1:443'')))
            (Inr (js ''text'')) (Inr (Some fenced_example)))
         example_body 0) =
     Responded 500
       (JObj [(js ''error'', JStr (js ''Failed to process document or generate summary.'')),
              (js ''details'', JStr (js ''External PDF access failure.''))])"
  using fetch_failure_external [of example_body
      "stub_env (Inl (JsError (js ''connect ECONNREFUSED 127.0.0.1:443''))) (Inr (js ''text'')) (Inr (Some fenced_example))"
      0 "JsError (js ''connect ECONNREFUSED 127.0.0.1:443'')" 1]
    example_body_valid refused_message_no_JSON
  by (simp add: stub_env_def)

text \<open>
  C6. For a validated request the stages run in order and the first failure ends the
  run: a failed download is followed by the log line only, a failed extraction by no
  generation call, a failed generation or parse by no result; each collaborator is
  called at most once; the status is 200 with the parsed summary when all stages
  succeeded, and 500 otherwise.
\<close>
theorem stages_short_circuit:
  assumes "passes_validation body"
    and "url = get_property body (js ''url'')"
    and "title = get_property body (js ''title'')"
  shows
    "(axios_get env url w = (Inl e, w1) \<longrightarrow>
        handler env body w =
          (Responded 500 (failure_body e), w1,
           [AxiosGet url, ConsoleError (js ''Microservice Error Processing:'') (LogString (message e))])) \<and>
     (axios_get env url w = (Inr d, w1) \<longrightarrow> pdfParser env d w1 = (Inl e, w2) \<longrightarrow>
        handler env body w =
          (Responded 500 (failure_body e), w2,
           [AxiosGet url, PdfParse d,
            ConsoleError (js ''Microservice Error Processing:'') (LogString (message e))])) \<and>
     (axios_get env url w = (Inr d, w1) \<longrightarrow> pdfParser env d w1 = (Inr t, w2) \<longrightarrow>
      fst (generateSummary env t title w2) = Inl e \<longrightarrow>
        handler env body w =
          (Responded 500 (failure_body e), fst (snd (generateSummary env t title w2)),
           [AxiosGet url, PdfParse d, GenerateContent (generation_request (prompt t)),
            ConsoleError (js ''Microservice Error Processing:'') (LogString (message e))])) \<and>
     (axios_get env url w = (Inr d, w1) \<longrightarrow> pdfParser env d w1 = (Inr t, w2) \<longrightarrow>
      fst (generateSummary env t title w2) = Inr summary \<longrightarrow>
        handler env body w =
          (Responded 200 summary, fst (snd (generateSummary env t title w2)),
           [AxiosGet url, PdfParse d, GenerateContent (generation_request (prompt t))])) \<and>
     (\<exists>b. fst (handler env body w) = Responded 200 b \<or> fst (handler env body w) = Responded 500 b) \<and>
     (\<exists>ev. calls (snd (snd (handler env body w))) = AxiosGet url # ev \<and>
        (ev = [] \<or> (\<exists>d. ev = [PdfParse d]) \<or> (\<exists>d r. ev = [PdfParse d, GenerateContent r])))"
proof -
  note v = assms(1)
  have H: "handler env body w =
     (case try_block env url title w of
        (Inr summary, w', ev) \<Rightarrow> (Responded 200 summary, w', ev)
      | (Inl e, w', ev) \<Rightarrow>
          (Responded 500 (failure_body e), w',
           ev @ [ConsoleError (js ''Microservice Error Processing:'') (LogString (message e))]))"
    using v by (simp add: handler_valid assms(2,3))
  have c1: "axios_get env url w = (Inl e, w1) \<longrightarrow>
        handler env body w =
          (Responded 500 (failure_body e), w1,
           [AxiosGet url, ConsoleError (js ''Microservice Error Processing:'') (LogString (message e))])"
    by (simp add: H try_block_fetch_fails)
  have c2: "axios_get env url w = (Inr d, w1) \<longrightarrow> pdfParser env d w1 = (Inl e, w2) \<longrightarrow>
        handler env body w =
          (Responded 500 (failure_body e), w2,
           [AxiosGet url, PdfParse d,
            ConsoleError (js ''Microservice Error Processing:'') (LogString (message e))])"
    by (simp add: H try_block_extract_fails)
  have G: "axios_get env url w = (Inr d, w1) \<Longrightarrow> pdfParser env d w1 = (Inr t, w2) \<Longrightarrow>
     try_block env url title w =
       (fst (generateSummary env t title w2), fst (snd (generateSummary env t title w2)),
        [AxiosGet url, PdfParse d, GenerateContent (generation_request (prompt t))])"
    by (rule try_block_generate)
  have c3: "axios_get env url w = (Inr d, w1) \<longrightarrow> pdfParser env d w1 = (Inr t, w2) \<longrightarrow>
      fst (generateSummary env t title w2) = Inl e \<longrightarrow>
        handler env body w =
          (Responded 500 (failure_body e), fst (snd (generateSummary env t title w2)),
           [AxiosGet url, PdfParse d, GenerateContent (generation_request (prompt t)),
            ConsoleError (js ''Microservice Error Processing:'') (LogString (message e))])"
    by (simp add: H G)
  have c4: "axios_get env url w = (Inr d, w1) \<longrightarrow> pdfParser env d w1 = (Inr t, w2) \<longrightarrow>
      fst (generateSummary env t title w2) = Inr summary \<longrightarrow>
        handler env body w =
          (Responded 200 summary, fst (snd (generateSummary env t title w2)),
           [AxiosGet url, PdfParse d, GenerateContent (generation_request (prompt t))])"
    by (simp add: H G)
  have c5: "\<exists>b. fst (handler env body w) = Responded 200 b \<or> fst (handler env body w) = Responded 500 b"
    by (simp add: H split: prod.splits sum.splits)
  have c6: "\<exists>ev. calls (snd (snd (handler env body w))) = AxiosGet url # ev \<and>
        (ev = [] \<or> (\<exists>d. ev = [PdfParse d]) \<or> (\<exists>d r. ev = [PdfParse d, GenerateContent r]))"
  proof (cases "axios_get env url w")
    case (Pair r wa)
    show ?thesis
    proof (cases r)
      case (Inl ea)
      with Pair show ?thesis by (simp add: H try_block_fetch_fails calls_def)
    next
      case (Inr da)
      note a = Pair [unfolded Inr]
      show ?thesis
      proof (cases "pdfParser env da wa")
        case (Pair r2 wb)
        show ?thesis
        proof (cases r2)
          case (Inl eb)
          with a Pair show ?thesis by (simp add: H try_block_extract_fails calls_def)
        next
          case (Inr ta)
          have "try_block env url title w =
            (fst (generateSummary env ta title wb), fst (snd (generateSummary env ta title wb)),
             [AxiosGet url, PdfParse da, GenerateContent (generation_request (prompt ta))])"
            using a Pair [unfolded Inr] by (rule try_block_generate)
          then show ?thesis
            by (cases "fst (generateSummary env ta title wb)") (simp_all add: H calls_def)
        qed
      qed
    qed
  qed
  from c1 c2 c3 c4 c5 c6 show ?thesis by blast
qed

lemma fenced_example_parses: "JSON_parse (jsonString fenced_example) = Some example_summary"
  by (simp add: fenced_example_def jsonString_def trim_def trimStart_def trimEnd_def js_def
      is_js_whitespace_def open_fence_def close_fence_def JSON_parse_def lex_def lex_outside_def
      is_json_whitespace_def is_digit_def lex_finish_def parse_tokens_def example_summary_def)

text \<open>A refused connection: one call, then the log line.\<close>
theorem stages_short_circuit_witness:
  "passes_validation example_body \<and>
   handler (stub_env (Inl (JsError (js ''connect ECONNREFUSED 127.0.0.1:443'')))
       (Inr (js ''text'')) (Inr (Some fenced_example))) example_body 0 =
     (Responded 500 (failure_body (JsError (js ''connect ECONNREFUSED 127.0.0.1:443''))), 1,
      [AxiosGet (JStr (js ''https://example.org/notice.pdf'')),
       ConsoleError (js ''Microservice Error Processing:'')
         (LogString (js ''connect ECONNREFUSED 127.0.0.1:443''))])"
  using stages_short_circuit [of example_body "JStr (js ''https://example.org/notice.pdf'')"
      "get_property example_body (js ''title'')"
      "stub_env (Inl (JsError (js ''connect ECONNREFUSED 127.0.0.1:443''))) (Inr (js ''text'')) (Inr (Some fenced_example))"
      0 "JsError (js ''connect ECONNREFUSED 127.0.0.1:443'')" 1]
    example_body_valid
  by (simp add: example_body_url stub_env_def)

text \<open>
  C7. \<open>generateSummary\<close> does the same for any two titles, the only call it makes carries
  the prompt built from the text alone, and two validated requests with the same \<open>url\<close>
  get the same run whatever their titles.
\<close>
theorem prompt_independent_of_title:
  "generateSummary env text title_a w = generateSummary env text title_b w \<and>
   snd (snd (generateSummary env text title_a w)) =
     [GenerateContent (generation_request (prompt text))] \<and>
   (passes_validation body_a \<longrightarrow> passes_validation body_b \<longrightarrow>
    get_property body_a (js ''url'') = get_property body_b (js ''url'') \<longrightarrow>
    handler env body_a w = handler env body_b w)"
proof (intro conjI impI)
  show "generateSummary env text title_a w = generateSummary env text title_b w"
    by (simp add: generateSummary_def)
  show "snd (snd (generateSummary env text title_a w)) =
     [GenerateContent (generation_request (prompt text))]"
    by (rule generateSummary_events)
  assume v: "passes_validation body_a" "passes_validation body_b"
    and u: "get_property body_a (js ''url'') = get_property body_b (js ''url'')"
  have g: "generateSummary env x t1 v = generateSummary env x t2 v" for x t1 t2 v
    by (simp add: generateSummary_def)
  have "try_block env url t1 w = try_block env url t2 w" for url t1 t2
    using g [of _ t1 _ t2] by (simp add: try_block_def split: prod.splits sum.splits)
  then have "try_block env (get_property body_a (js ''url'')) (get_property body_a (js ''title'')) w =
      try_block env (get_property body_b (js ''url'')) (get_property body_b (js ''title'')) w"
    by (simp add: u)
  then show "handler env body_a w = handler env body_b w"
    using v by (simp add: handler_valid)
qed

text \<open>The title \<open>"Notice"\<close> against the title \<open>true\<close>.\<close>
theorem prompt_independent_of_title_witness:
  "handler (stub_env (Inr pdf_bytes) (Inr (js ''text'')) (Inr (Some fenced_example))) example_body 0 =
   handler (stub_env (Inr pdf_bytes) (Inr (js ''text'')) (Inr (Some fenced_example)))
     (JObj [(js ''title'', JBool True), (js ''url'', JStr (js ''https://example.org/notice.pdf''))]) 0"
proof -
  have v: "passes_validation (JObj [(js ''title'', JBool True), (js ''url'', JStr (js ''https://example.org/notice.pdf''))])"
    by (simp add: passes_validation_def js_def)
  have u: "get_property example_body (js ''url'') =
      get_property (JObj [(js ''title'', JBool True), (js ''url'', JStr (js ''https://example.org/notice.pdf''))]) (js ''url'')"
    by (simp add: example_body_def js_def)
  show ?thesis
    using prompt_independent_of_title [where body_a = example_body
        and body_b = "JObj [(js ''title'', JBool True), (js ''url'', JStr (js ''https://example.org/notice.pdf''))]"
        and env = "stub_env (Inr pdf_bytes) (Inr (js ''text'')) (Inr (Some fenced_example))"
        and w = 0]
      example_body_valid v u
    by blast
qed

lemma extract_stubbed:
  assumes "stubbed env"
  shows "fst (extractTextFromPdf env url w) = fst (extractTextFromPdf env url w') \<and>
         snd (snd (extractTextFromPdf env url w)) = snd (snd (extractTextFromPdf env url w'))"
proof -
  obtain r w1 where a: "axios_get env url w = (r, w1)" by (cases "axios_get env url w")
  obtain r' w1' where a': "axios_get env url w' = (r', w1')" by (cases "axios_get env url w'")
  have r: "r' = r" using assms a a' unfolding stubbed_def by (metis fst_conv)
  show ?thesis
  proof (cases r)
    case (Inl e)
    with a a' r show ?thesis by (simp add: extractTextFromPdf_def)
  next
    case (Inr d)
    obtain q w2 where p: "pdfParser env d w1 = (q, w2)" by (cases "pdfParser env d w1")
    obtain q' w2' where p': "pdfParser env d w1' = (q', w2')" by (cases "pdfParser env d w1'")
    have q: "q' = q" using assms p p' unfolding stubbed_def by (metis fst_conv)
    from a a' r Inr p p' q show ?thesis
      by (cases q) (simp_all add: extractTextFromPdf_def)
  qed
qed

lemma generate_stubbed:
  assumes "stubbed env"
  shows "fst (generateSummary env text title w) = fst (generateSummary env text title w')"
proof -
  let ?r = "generation_request (prompt text)"
  obtain g w1 where a: "generateContent env ?r w = (g, w1)" by (cases "generateContent env ?r w")
  obtain g' w1' where a': "generateContent env ?r w' = (g', w1')" by (cases "generateContent env ?r w'")
  have "g' = g" using assms a a' unfolding stubbed_def by (metis fst_conv)
  with a a' show ?thesis
    by (simp add: generateSummary_def Let_def split: sum.splits option.splits)
qed

lemma try_block_stubbed:
  assumes "stubbed env"
  shows "fst (try_block env url title w) = fst (try_block env url title w') \<and>
         snd (snd (try_block env url title w)) = snd (snd (try_block env url title w'))"
proof -
  obtain x w1 ev1 where a: "extractTextFromPdf env url w = (x, w1, ev1)"
    by (cases "extractTextFromPdf env url w")
  obtain x' w1' ev1' where a': "extractTextFromPdf env url w' = (x', w1', ev1')"
    by (cases "extractTextFromPdf env url w'")
  have e: "x' = x" "ev1' = ev1"
    using extract_stubbed [OF assms, of url w w'] a a' by simp_all
  show ?thesis
  proof (cases x)
    case (Inl err)
    with a a' e show ?thesis by (simp add: try_block_def)
  next
    case (Inr t)
    obtain y w2 ev2 where b: "generateSummary env t title w1 = (y, w2, ev2)"
      by (cases "generateSummary env t title w1")
    obtain y' w2' ev2' where b': "generateSummary env t title w1' = (y', w2', ev2')"
      by (cases "generateSummary env t title w1'")
    have "y' = y"
      using generate_stubbed [OF assms, of t title w1 w1'] b b' by simp
    moreover have "ev2' = ev2"
      using generateSummary_events [of env t title w1] generateSummary_events [of env t title w1']
        b b' by simp
    ultimately show ?thesis
      using a a' e Inr b b' by (simp add: try_block_def)
  qed
qed

lemma handler_stubbed:
  assumes "stubbed env"
  shows "fst (handler env body w) = fst (handler env body w') \<and>
         snd (snd (handler env body w)) = snd (snd (handler env body w'))"
proof -
  let ?u = "get_property body (js ''url'')" and ?t = "get_property body (js ''title'')"
  obtain x w1 ev where a: "try_block env ?u ?t w = (x, w1, ev)"
    by (cases "try_block env ?u ?t w")
  obtain x' w1' ev' where a': "try_block env ?u ?t w' = (x', w1', ev')"
    by (cases "try_block env ?u ?t w'")
  have "x' = x" "ev' = ev"
    using try_block_stubbed [OF assms, of ?u ?t w w'] a a' by simp_all
  with a a' show ?thesis
    by (cases x) (simp_all add: handler_def Let_def)
qed

lemma handler_world_preserving:
  assumes "world_preserving env"
  shows "fst (snd (handler env body w)) = w"
proof -
  have a: "snd (axios_get env url v) = v" for url v using assms by (simp add: world_preserving_def)
  have p: "snd (pdfParser env d v) = v" for d v using assms by (simp add: world_preserving_def)
  have g: "snd (generateContent env r v) = v" for r v using assms by (simp add: world_preserving_def)
  have x: "fst (snd (extractTextFromPdf env url v)) = v" for url v
  proof -
    obtain r v1 where 1: "axios_get env url v = (r, v1)" by (cases "axios_get env url v")
    then have v1: "v1 = v" using a [of url v] by simp
    show ?thesis
    proof (cases r)
      case (Inl e)
      with 1 v1 show ?thesis by (simp add: extractTextFromPdf_def)
    next
      case (Inr d)
      obtain q v2 where 2: "pdfParser env d v = (q, v2)" by (cases "pdfParser env d v")
      then have "v2 = v" using p [of d v] by simp
      with 1 v1 Inr 2 show ?thesis
        by (cases q) (simp_all add: extractTextFromPdf_def)
    qed
  qed
  have s: "fst (snd (generateSummary env t ti v)) = v" for t ti v
  proof -
    obtain r v1 where 1: "generateContent env (generation_request (prompt t)) v = (r, v1)"
      by (cases "generateContent env (generation_request (prompt t)) v")
    then have "v1 = v" using g [of "generation_request (prompt t)" v] by simp
    with 1 show ?thesis
      by (simp add: generateSummary_def Let_def split: sum.splits option.splits)
  qed
  have b: "fst (snd (try_block env url ti v)) = v" for url ti v
  proof -
    obtain r v1 ev1 where 1: "extractTextFromPdf env url v = (r, v1, ev1)"
      by (cases "extractTextFromPdf env url v")
    then have v1: "v1 = v" using x [of url v] by simp
    show ?thesis
    proof (cases r)
      case (Inl e)
      with 1 v1 show ?thesis by (simp add: try_block_def)
    next
      case (Inr t)
      obtain y v2 ev2 where 2: "generateSummary env t ti v = (y, v2, ev2)"
        by (cases "generateSummary env t ti v")
      then have "v2 = v" using s [of t ti v] by simp
      with 1 v1 Inr 2 show ?thesis by (simp add: try_block_def)
    qed
  qed
  obtain r v1 ev1 where 1:
    "try_block env (get_property body (js ''url'')) (get_property body (js ''title'')) w = (r, v1, ev1)"
    by (cases "try_block env (get_property body (js ''url'')) (get_property body (js ''title'')) w")
  then have "v1 = w"
    using b [of "get_property body (js ''url'')" "get_property body (js ''title'')" w] by simp
  with 1 show ?thesis
    by (cases r) (simp_all add: handler_def Let_def)
qed

text \<open>
  C8. With collaborators whose answers do not depend on the world, the response and the
  events of a request are the same from any two worlds, so also from the world that a
  first run of the same request left; and the handler changes the world only through
  its collaborators.
\<close>
theorem handler_deterministic:
  "(stubbed env \<longrightarrow>
      fst (handler env body w) = fst (handler env body w') \<and>
      snd (snd (handler env body w)) = snd (snd (handler env body w')) \<and>
      fst (handler env body (fst (snd (handler env body w)))) = fst (handler env body w)) \<and>
   (world_preserving env \<longrightarrow> fst (snd (handler env body w)) = w)"
  using handler_stubbed [of env body] handler_world_preserving [of env body w] by metis

lemma stub_env_stubbed: "stubbed (stub_env a b c)"
  by (simp add: stubbed_def stub_env_def)

lemma still_env_world_preserving: "world_preserving (still_env a b c)"
  by (simp add: world_preserving_def still_env_def)

text \<open>
  The same request before and after three calls were counted; and a run that leaves
  the count at seven.
\<close>
theorem handler_deterministic_witness:
  "fst (handler (stub_env (Inr pdf_bytes) (Inr (js ''text'')) (Inr (Some fenced_example))) example_body 0) =
   fst (handler (stub_env (Inr pdf_bytes) (Inr (js ''text'')) (Inr (Some fenced_example))) example_body 3) \<and>
   fst (snd (handler (still_env (Inr pdf_bytes) (Inr (js ''text'')) (Inr (Some fenced_example))) example_body 7)) = 7"
  using handler_deterministic [of "stub_env (Inr pdf_bytes) (Inr (js ''text'')) (Inr (Some fenced_example))" example_body 0 3]
    handler_deterministic [of "still_env (Inr pdf_bytes) (Inr (js ''text'')) (Inr (Some fenced_example))" example_body 7 7]
    stub_env_stubbed still_env_world_preserving
  by blast

text \<open>
  C10. For every environment, body and world, the handlers of \<open>server.cjs\<close> and of
  \<open>server.js\<close> give the same response, leave the same world and make the same calls;
  they differ in the argument of the log line only.
\<close>
theorem handlers_equivalent:
  "fst (handler_cjs env body w) = fst (handler env body w) \<and>
   fst (snd (handler_cjs env body w)) = fst (snd (handler env body w)) \<and>
   calls (snd (snd (handler_cjs env body w))) = calls (snd (snd (handler env body w)))"
proof -
  have x: "extractTextFromPdf_cjs env u v = extractTextFromPdf env u v" for u v
    by (simp add: extractTextFromPdf_cjs_def extractTextFromPdf_def)
  have g: "generateSummary_cjs env t ti v = generateSummary env t ti v" for t ti v
    by (simp add: generateSummary_cjs_def generateSummary_def)
  have t: "try_block_cjs env u ti v = try_block env u ti v" for u ti v
    by (simp add: try_block_cjs_def try_block_def x g split: prod.splits sum.splits)
  show ?thesis
    by (simp add: handler_cjs_def handler_def Let_def t catch_block_def catch_block_cjs_def
        calls_def split: prod.splits sum.splits)
qed

lemma example_run:
  "handler (stub_env (Inr pdf_bytes) (Inr (js ''text'')) (Inr (Some fenced_example))) example_body 0 =
     (Responded 200 example_summary, 3,
      [AxiosGet (JStr (js ''https://example.org/notice.pdf'')), PdfParse pdf_bytes,
       GenerateContent (generation_request (prompt (js ''text'')))])"
proof -
  let ?env = "stub_env (Inr pdf_bytes) (Inr (js ''text'')) (Inr (Some fenced_example))"
  let ?url = "JStr (js ''https://example.org/notice.pdf'')"
  have g: "generateSummary ?env (js ''text'') title 2 =
      (Inr example_summary, 3, [GenerateContent (generation_request (prompt (js ''text'')))])" for title
    by (simp add: generateSummary_def Let_def stub_env_def fenced_example_parses)
  have "try_block ?env ?url (get_property example_body (js ''title'')) 0 =
      (fst (generateSummary ?env (js ''text'') (get_property example_body (js ''title'')) 2),
       fst (snd (generateSummary ?env (js ''text'') (get_property example_body (js ''title'')) 2)),
       [AxiosGet ?url, PdfParse pdf_bytes, GenerateContent (generation_request (prompt (js ''text'')))])"
    by (rule try_block_generate) (simp_all add: stub_env_def)
  then have "try_block ?env (get_property example_body (js ''url'')) (get_property example_body (js ''title'')) 0 =
      (Inr example_summary, 3,
       [AxiosGet ?url, PdfParse pdf_bytes, GenerateContent (generation_request (prompt (js ''text'')))])"
    by (simp add: g example_body_url)
  then show ?thesis
    using example_body_valid by (rule handler_success [rotated])
qed

text \<open>The example request, answered with 200 by \<open>server.cjs\<close> as by \<open>server.js\<close>.\<close>
theorem handlers_equivalent_witness:
  "fst (handler_cjs (stub_env (Inr pdf_bytes) (Inr (js ''text'')) (Inr (Some fenced_example))) example_body 0) =
     Responded 200 example_summary \<and>
   fst (snd (handler_cjs (stub_env (Inr pdf_bytes) (Inr (js ''text'')) (Inr (Some fenced_example))) example_body 0)) = 3"
  using handlers_equivalent [of "stub_env (Inr pdf_bytes) (Inr (js ''text'')) (Inr (Some fenced_example))" example_body 0]
  by (simp add: example_run)

subsection \<open>The normalizer\<close>

lemma foldl_LFail: "foldl lex_step LFail xs = LFail"
  by (induction xs) simp_all

lemma lex_outside_wf: "lex_wf (lex_outside toks c)"
  by (simp add: lex_outside_def js_def)

lemma lex_step_wf: "lex_wf st \<Longrightarrow> lex_wf (lex_step st c)"
  by (induction st c rule: lex_step.induct)
     (auto simp: lex_outside_wf split: option.splits)

lemma foldl_lex_wf: "lex_wf st \<Longrightarrow> lex_wf (foldl lex_step st xs)"
  by (induction xs arbitrary: st) (simp_all add: lex_step_wf)

lemma num_step_backtick: "num_step ns a 0x0060 = None"
  by (cases ns) (simp_all add: num_step_def is_digit_def)

lemma num_step_newline: "num_step ns a 0x000A = None"
  by (cases ns) (simp_all add: num_step_def is_digit_def)

lemma literal_rejects:
  "\<forall>r \<in> set rs. 0x0061 \<le> r \<and> r \<le> 0x007A \<Longrightarrow> \<not> (0x0061 \<le> c \<and> c \<le> 0x007A) \<Longrightarrow>
   lex_step (LLiteral toks rs v) c = LFail"
  by (cases rs) auto

lemma open_fence_rejected: "lex_wf st \<Longrightarrow> foldl lex_step st open_fence = LFail"
  by (cases st rule: lex_wf.cases)
     (auto simp: open_fence_def js_def lex_outside_def is_json_whitespace_def is_digit_def
        hex_value_def num_step_backtick literal_rejects)

lemma close_fence_rejected: "lex_wf st \<Longrightarrow> foldl lex_step st close_fence = LFail"
  by (cases st rule: lex_wf.cases)
     (auto simp: close_fence_def js_def lex_outside_def is_json_whitespace_def is_digit_def
        hex_value_def num_step_newline num_step_backtick literal_rejects)


lemma fence_rejected:
  assumes "lex_wf st" and "fence_at xs"
  shows "foldl lex_step st xs = LFail"
proof -
  from assms(2) obtain f rest where x: "xs = f @ rest" and f: "f = open_fence \<or> f = close_fence"
    by (auto simp: fence_at_def prefix_def)
  from f assms(1) have "foldl lex_step st f = LFail"
    by (auto simp: open_fence_rejected close_fence_rejected)
  then show ?thesis by (simp add: x foldl_LFail)
qed

lemma lex_no_fence:
  assumes "lex t = Some toks"
  shows "\<not> fence_at (drop i t)"
proof
  assume f: "fence_at (drop i t)"
  have "lex_wf (foldl lex_step (LOutside []) (take i t))"
    by (rule foldl_lex_wf) simp
  then have "foldl lex_step (foldl lex_step (LOutside []) (take i t)) (drop i t) = LFail"
    using f by (rule fence_rejected)
  then have "foldl lex_step (LOutside []) (take i t @ drop i t) = LFail"
    by (simp only: foldl_append)
  then have "lex t = None"
    by (simp add: lex_def lex_finish_def)
  with assms show False by simp
qed

lemma strip_fences_no_fence:
  "(\<forall>i < length a. \<not> fence_at (drop i (a @ b))) \<Longrightarrow> strip_fences (a @ b) = a @ strip_fences b"
proof (induction a)
  case Nil
  show ?case by simp
next
  case (Cons c a)
  have 0: "\<not> fence_at (c # a @ b)"
    using Cons.prems [rule_format, of 0] by simp
  have "\<forall>i < length a. \<not> fence_at (drop i (a @ b))"
  proof (intro allI impI)
    fix i assume "i < length a"
    then show "\<not> fence_at (drop i (a @ b))"
      using Cons.prems [rule_format, of "Suc i"] by simp
  qed
  then have "strip_fences (a @ b) = a @ strip_fences b" by (rule Cons.IH)
  with 0 show ?case by (simp add: fence_at_def)
qed

lemma lexed_strip_fences:
  assumes "lex t = Some toks"
  shows "strip_fences t = t"
  using strip_fences_no_fence [of t "[]"] lex_no_fence [OF assms] by simp

lemma js_whitespace_cases:
  "is_js_whitespace c \<Longrightarrow> is_json_whitespace c \<or> c = 0x000B \<or> c = 0x000C \<or> 0x00A0 \<le> c"
  by (auto simp: is_js_whitespace_def is_json_whitespace_def word_le_nat_alt)

lemma js_whitespace_outside:
  assumes "is_js_whitespace c"
  shows "lex_outside toks c = (if is_json_whitespace c then LOutside toks else LFail)"
proof (cases "is_json_whitespace c")
  case True
  then show ?thesis by (simp add: lex_outside_def)
next
  case False
  with assms have "c = 0x000B \<or> c = 0x000C \<or> 0x00A0 \<le> c"
    using js_whitespace_cases by blast
  then have "c \<noteq> 0x007B \<and> c \<noteq> 0x007D \<and> c \<noteq> 0x005B \<and> c \<noteq> 0x005D \<and> c \<noteq> 0x003A \<and>
      c \<noteq> 0x002C \<and> c \<noteq> 0x0022 \<and> c \<noteq> 0x002D \<and> c \<noteq> 0x0030 \<and> \<not> is_digit c \<and>
      c \<noteq> 0x0074 \<and> c \<noteq> 0x0066 \<and> c \<noteq> 0x006E"
    by (auto simp: is_digit_def word_le_nat_alt)
  with False show ?thesis by (simp add: lex_outside_def)
qed

lemma lex_Cons_whitespace:
  assumes "is_js_whitespace c" and "lex (c # cs) = Some toks"
  shows "lex cs = Some toks"
proof (cases "is_json_whitespace c")
  case True
  with assms show ?thesis by (simp add: lex_def lex_outside_def)
next
  case False
  with assms(1) have "lex_outside [] c = LFail" by (simp add: js_whitespace_outside)
  then have "lex (c # cs) = None" by (simp add: lex_def foldl_LFail lex_finish_def)
  with assms(2) show ?thesis by simp
qed

lemma lex_trimStart:
  "lex t = Some toks \<Longrightarrow> lex (trimStart t) = Some toks"
  unfolding trimStart_def
  by (induction t) (auto dest: lex_Cons_whitespace)


lemma js_whitespace_range: "is_js_whitespace c \<Longrightarrow> c \<le> 0x0020 \<or> 0x00A0 \<le> c"
  by (auto simp: is_js_whitespace_def word_le_nat_alt)

lemma js_whitespace_no_token:
  assumes "is_js_whitespace c"
  shows "c \<noteq> 0x0022" "c \<noteq> 0x005C" "c \<noteq> 0x002F" "\<not> (0x0061 \<le> c \<and> c \<le> 0x007A)"
    "hex_value c = None" "\<not> is_digit c" "c \<noteq> 0x002E" "c \<noteq> 0x0065" "c \<noteq> 0x0045"
    "c \<noteq> 0x002B" "c \<noteq> 0x002D" "c \<noteq> 0x0030" "c \<noteq> 0x0062" "c \<noteq> 0x0066"
    "c \<noteq> 0x006E" "c \<noteq> 0x0072" "c \<noteq> 0x0074" "c \<noteq> 0x0075"
  using js_whitespace_range [OF assms]
  by (auto simp: hex_value_def is_digit_def word_le_nat_alt)

lemma num_step_whitespace: "is_js_whitespace c \<Longrightarrow> num_step ns a c = None"
  by (cases ns) (simp_all add: num_step_def js_whitespace_no_token)

lemma lex_step_whitespace:
  assumes "lex_wf st" and "is_js_whitespace c" and "lex_finish (lex_step st c) = Some toks"
  shows "lex_finish st = Some toks"
proof (cases st)
  case LFail
  with assms(3) show ?thesis by (simp add: lex_finish_def)
next
  case (LOutside ts)
  with assms(2,3) show ?thesis
    by (simp add: js_whitespace_outside lex_finish_def split: if_splits)
next
  case (LLiteral ts rs v)
  with assms have "lex_step st c = LFail"
    by (simp add: literal_rejects js_whitespace_no_token)
  with assms(3) show ?thesis by (simp add: lex_finish_def)
next
  case (LString ts acc)
  with assms(2,3) show ?thesis
    by (simp add: js_whitespace_no_token lex_finish_def split: if_splits)
next
  case (LEscape ts acc)
  with assms(2,3) show ?thesis
    by (simp add: js_whitespace_no_token lex_finish_def)
next
  case (LHex ts acc n u)
  with assms(2,3) show ?thesis
    by (simp add: js_whitespace_no_token lex_finish_def)
next
  case (LNumber ts ns a)
  with assms(2,3) show ?thesis
    by (simp add: num_step_whitespace js_whitespace_outside lex_finish_def split: if_splits)
qed

lemma lex_snoc_whitespace:
  assumes "is_js_whitespace c" and "lex (xs @ [c]) = Some toks"
  shows "lex xs = Some toks"
proof -
  have "lex_wf (foldl lex_step (LOutside []) xs)"
    by (rule foldl_lex_wf) simp
  then show ?thesis
    using assms lex_step_whitespace [of "foldl lex_step (LOutside []) xs" c toks]
    by (simp add: lex_def)
qed

lemma lex_rev_dropWhile:
  "lex (rev r) = Some toks \<Longrightarrow> lex (rev (dropWhile is_js_whitespace r)) = Some toks"
  by (induction r) (auto dest: lex_snoc_whitespace)

lemma lex_trimEnd: "lex t = Some toks \<Longrightarrow> lex (trimEnd t) = Some toks"
  using lex_rev_dropWhile [of "rev t" toks] by (simp add: trimEnd_def)

lemma lex_trim: "lex t = Some toks \<Longrightarrow> lex (trim t) = Some toks"
  by (simp add: trim_def lex_trimStart lex_trimEnd)

lemma lex_jsonString:
  assumes "lex t = Some toks"
  shows "lex (jsonString t) = Some toks"
proof -
  have 1: "lex (trim t) = Some toks" using assms by (rule lex_trim)
  then have "strip_fences (trim t) = trim t" by (rule lexed_strip_fences)
  then have "jsonString t = trim (trim t)" by (simp add: jsonString_def)
  with 1 show ?thesis by (simp add: lex_trim)
qed

lemma JSON_parse_jsonString:
  assumes "JSON_parse t = Some v"
  shows "JSON_parse (jsonString t) = Some v"
proof -
  from assms obtain toks where l: "lex t = Some toks" and "parse_tokens toks = Some v"
    by (auto simp: JSON_parse_def split: option.splits)
  then show ?thesis
    using lex_jsonString [OF l] by (simp add: JSON_parse_def)
qed


lemma trim_padded:
  assumes "\<forall>c \<in> set pad_a. is_js_whitespace c" and "\<forall>c \<in> set pad_b. is_js_whitespace c"
    and "m \<noteq> []" and "\<not> is_js_whitespace (hd m)" and "\<not> is_js_whitespace (last m)"
  shows "trim (pad_a @ m @ pad_b) = m"
proof -
  have "dropWhile is_js_whitespace (pad_a @ m @ pad_b) = dropWhile is_js_whitespace (m @ pad_b)"
    using assms(1) by (intro dropWhile_append2) simp
  also have "\<dots> = m @ pad_b"
    using assms(3,4) by (cases m) simp_all
  finally have s: "trimStart (pad_a @ m @ pad_b) = m @ pad_b"
    by (simp add: trimStart_def)
  have "dropWhile is_js_whitespace (rev pad_b @ rev m) = dropWhile is_js_whitespace (rev m)"
    using assms(2) by (intro dropWhile_append2) simp
  also have "\<dots> = rev m"
    using assms(3,5) by (cases "rev m") (simp_all add: last_rev [symmetric] hd_rev)
  finally have "trimEnd (m @ pad_b) = m"
    by (simp add: trimEnd_def)
  with s show ?thesis by (simp add: trim_def)
qed

lemma strip_fences_open: "strip_fences (open_fence @ rest) = strip_fences rest"
  by (simp add: open_fence_def js_def)

lemma strip_fences_close: "strip_fences (close_fence @ rest) = strip_fences rest"
  by (simp add: close_fence_def open_fence_def js_def)

lemma fence_straddles:
  assumes "b \<noteq> []" and "fence_at (b @ close_fence)"
  shows "fence_at b \<or> b = js ''```json''"
  using assms
  by (auto simp: fence_at_def prefix_append prefix_Cons open_fence_def close_fence_def js_def
      Cons_eq_append_conv)

lemma unfinished_fence_rejected:
  "lex_wf st \<Longrightarrow> lex_finish (foldl lex_step st (js ''```json'')) = None"
  by (cases st rule: lex_wf.cases)
     (auto simp: js_def lex_outside_def is_json_whitespace_def is_digit_def
        hex_value_def num_step_backtick literal_rejects lex_finish_def foldl_LFail)

lemma strip_fences_wrapped:
  assumes "lex j = Some toks"
  shows "strip_fences (open_fence @ j @ close_fence) = j"
proof -
  have "\<forall>i < length j. \<not> fence_at (drop i (j @ close_fence))"
  proof (intro allI impI notI)
    fix i assume i: "i < length j" and f: "fence_at (drop i (j @ close_fence))"
    then have "fence_at (drop i j @ close_fence)" by simp
    moreover have "drop i j \<noteq> []" using i by simp
    ultimately have "fence_at (drop i j) \<or> drop i j = js ''```json''"
      by (intro fence_straddles)
    then show False
    proof
      assume "fence_at (drop i j)"
      with lex_no_fence [OF assms] show False by blast
    next
      assume e: "drop i j = js ''```json''"
      have "lex_wf (foldl lex_step (LOutside []) (take i j))"
        by (rule foldl_lex_wf) simp
      then have "lex_finish (foldl lex_step (foldl lex_step (LOutside []) (take i j)) (drop i j)) = None"
        unfolding e by (rule unfinished_fence_rejected)
      then have "lex_finish (foldl lex_step (LOutside []) (take i j @ drop i j)) = None"
        by (simp only: foldl_append)
      with assms show False by (simp add: lex_def)
    qed
  qed
  then have "strip_fences (j @ close_fence) = j @ strip_fences close_fence"
    by (rule strip_fences_no_fence)
  moreover have "strip_fences close_fence = []"
    using strip_fences_close [of "[]"] by simp
  ultimately show ?thesis by (simp add: strip_fences_open)
qed

lemma jsonString_wrapped:
  assumes "\<forall>c \<in> set pad_a. is_js_whitespace c" and "\<forall>c \<in> set pad_b. is_js_whitespace c"
    and "lex j = Some toks"
  shows "lex (jsonString (pad_a @ open_fence @ j @ close_fence @ pad_b)) = Some toks"
proof -
  let ?m = "open_fence @ j @ close_fence"
  have "hd ?m = 0x0060" "last ?m = 0x0060" "?m \<noteq> []"
    by (simp_all add: open_fence_def close_fence_def js_def)
  then have "trim (pad_a @ ?m @ pad_b) = ?m"
    using assms(1,2) by (intro trim_padded) (simp_all add: is_js_whitespace_def)
  then have "jsonString (pad_a @ open_fence @ j @ close_fence @ pad_b) = trim j"
    using strip_fences_wrapped [OF assms(3)] by (simp add: jsonString_def)
  then show ?thesis using assms(3) by (simp add: lex_trim)
qed


lemmas evaluation =
  jsonString_def trim_def trimStart_def trimEnd_def js_def is_js_whitespace_def open_fence_def
  close_fence_def JSON_parse_def lex_def lex_outside_def is_json_whitespace_def is_digit_def
  lex_finish_def parse_tokens_def num_step_def num_accepting_def num_value_def new_number_def
  digit_value_def hex_value_def

text \<open>
  C5. The fenced example is normalized and parsed to exactly the object with \<open>gist = "a"\<close>,
  \<open>keyPoints = "<ul></ul>"\<close>, \<open>relevance = "b"\<close>. More generally, for any text \<open>j\<close> that
  parses to \<open>v\<close>, wrapped in the opening and closing fence and padded with white space
  on both sides, the normalizer gives \<open>v\<close> itself.
\<close>
theorem normalizer_unwraps:
  "JSON_parse (jsonString (open_fence @
      js ''{\"gist\":\"a\",\"keyPoints\":\"<ul></ul>\",\"relevance\":\"b\"}'' @ close_fence)) =
     Some (JObj [(js ''gist'', JStr (js ''a'')), (js ''keyPoints'', JStr (js ''<ul></ul>'')),
                 (js ''relevance'', JStr (js ''b''))]) \<and>
   ((\<forall>c \<in> set pad_a. is_js_whitespace c) \<longrightarrow> (\<forall>c \<in> set pad_b. is_js_whitespace c) \<longrightarrow>
    JSON_parse j = Some v \<longrightarrow>
    JSON_parse (jsonString (pad_a @ open_fence @ j @ close_fence @ pad_b)) = Some v)"
proof (intro conjI impI)
  show "JSON_parse (jsonString (open_fence @
      js ''{\"gist\":\"a\",\"keyPoints\":\"<ul></ul>\",\"relevance\":\"b\"}'' @ close_fence)) =
     Some (JObj [(js ''gist'', JStr (js ''a'')), (js ''keyPoints'', JStr (js ''<ul></ul>'')),
                 (js ''relevance'', JStr (js ''b''))])"
    by (simp add: evaluation)
next
  assume p: "\<forall>c \<in> set pad_a. is_js_whitespace c" "\<forall>c \<in> set pad_b. is_js_whitespace c"
    and j: "JSON_parse j = Some v"
  from j obtain toks where l: "lex j = Some toks" and t: "parse_tokens toks = Some v"
    by (auto simp: JSON_parse_def split: option.splits)
  have "lex (jsonString (pad_a @ open_fence @ j @ close_fence @ pad_b)) = Some toks"
    using p l by (rule jsonString_wrapped)
  with t show "JSON_parse (jsonString (pad_a @ open_fence @ j @ close_fence @ pad_b)) = Some v"
    by (simp add: JSON_parse_def)
qed

lemma separated_example:
  "\<forall>i < length (js ''[1,''). \<not> fence_at (drop i (js ''[1,'' @ close_fence @ js ''2]''))"
  by (simp add: js_def fence_at_def open_fence_def close_fence_def All_less_Suc)

lemma padded_example_parses: "JSON_parse (js ''[true, 2.5]'') = Some (JArr [JBool True, JNum (5 / 2)])"
  by (simp add: evaluation)

text \<open>An array in fences, with white space before and after.\<close>
theorem normalizer_unwraps_witness:
  "JSON_parse (jsonString ([0x0020, 0x000A] @ open_fence @ js ''[true, 2.5]'' @ close_fence @ [0x000A])) =
     Some (JArr [JBool True, JNum (5 / 2)])"
  using normalizer_unwraps [of "[0x0020, 0x000A]" "[0x000A]" "js ''[true, 2.5]''" "JArr [JBool True, JNum (5 / 2)]"]
    padded_example_parses
  by (simp add: is_js_whitespace_def)

text \<open>
  C9, as stated, fails in its consequence: there is no text that \<open>JSON.parse\<close> accepts
  and in which the regular expression matches anywhere, and none that it accepts and
  that the normalizer parses differently. A string literal cannot hold a raw line feed,
  and a backtick cannot stand outside a string literal.
\<close>
theorem valid_json_never_altered:
  "\<not> (\<exists>t. JSON_parse t \<noteq> None \<and>
          ((\<exists>i. fence_at (drop i t)) \<or> JSON_parse (jsonString t) \<noteq> JSON_parse t))"
proof
  assume "\<exists>t. JSON_parse t \<noteq> None \<and>
          ((\<exists>i. fence_at (drop i t)) \<or> JSON_parse (jsonString t) \<noteq> JSON_parse t)"
  then obtain t v where v: "JSON_parse t = Some v"
    and d: "(\<exists>i. fence_at (drop i t)) \<or> JSON_parse (jsonString t) \<noteq> JSON_parse t"
    by auto
  from v obtain toks where l: "lex t = Some toks"
    by (auto simp: JSON_parse_def split: option.splits)
  from d show False
  proof
    assume "\<exists>i. fence_at (drop i t)"
    with lex_no_fence [OF l] show False by blast
  next
    assume "JSON_parse (jsonString t) \<noteq> JSON_parse t"
    with JSON_parse_jsonString [OF v] v show False by simp
  qed
qed

text \<open>
  C9, amended. The replacement is global: a match that the scan reaches is deleted
  wherever it stands and the scan goes on behind it, so that several fenced pieces
  are joined before parsing; a text that \<open>JSON.parse\<close> accepts holds no match and is
  parsed by the normalizer to the same value.
\<close>
theorem fence_stripping_global:
  "((\<forall>i < length a. \<not> fence_at (drop i (a @ f @ rest))) \<longrightarrow> f = open_fence \<or> f = close_fence \<longrightarrow>
      strip_fences (a @ f @ rest) = a @ strip_fences rest) \<and>
   (JSON_parse t = Some v \<longrightarrow>
      (\<forall>i. \<not> fence_at (drop i t)) \<and> JSON_parse (jsonString t) = Some v) \<and>
   JSON_parse (jsonString (open_fence @ js ''[1,'' @ close_fence @ open_fence @ js ''2]'' @ close_fence)) =
     Some (JArr [JNum 1, JNum 2])"
proof (intro conjI impI)
  assume "\<forall>i < length a. \<not> fence_at (drop i (a @ f @ rest))" and "f = open_fence \<or> f = close_fence"
  then show "strip_fences (a @ f @ rest) = a @ strip_fences rest"
    by (auto simp: strip_fences_no_fence strip_fences_open strip_fences_close)
next
  assume v: "JSON_parse t = Some v"
  then obtain toks where l: "lex t = Some toks"
    by (auto simp: JSON_parse_def split: option.splits)
  show "\<forall>i. \<not> fence_at (drop i t)"
    using lex_no_fence [OF l] by blast
  show "JSON_parse (jsonString t) = Some v"
    using v by (rule JSON_parse_jsonString)
next
  show "JSON_parse (jsonString (open_fence @ js ''[1,'' @ close_fence @ open_fence @ js ''2]'' @ close_fence)) =
     Some (JArr [JNum 1, JNum 2])"
    by (simp add: evaluation)
qed

lemma backticks_example_parses:
  "JSON_parse (js ''{\"gist\":\"```json\"}'') = Some (JObj [(js ''gist'', JStr (js ''```json''))])"
  by (simp add: evaluation)

text \<open>A closing fence between two pieces, and an object whose string holds backticks.\<close>
theorem fence_stripping_global_witness:
  "strip_fences (js ''[1,'' @ close_fence @ js ''2]'') = js ''[1,'' @ strip_fences (js ''2]'') \<and>
   JSON_parse (js ''{\"gist\":\"```json\"}'') = Some (JObj [(js ''gist'', JStr (js ''```json''))]) \<and>
   JSON_parse (jsonString (js ''{\"gist\":\"```json\"}'')) = Some (JObj [(js ''gist'', JStr (js ''```json''))])"
  using fence_stripping_global [of "js ''[1,''" close_fence "js ''2]''" "js ''{\"gist\":\"```json\"}''"
      "JObj [(js ''gist'', JStr (js ''```json''))]"]
    backticks_example_parses separated_example
  by blast

end
